theory Spec2Isabelle
  imports Complex_Main "HOL-Library.Sublist"
begin

section \<open>Python values, exceptions and the outside world\<close>

text \<open>
  The script \<^verbatim>\<open>speedtest_equivalent.py\<close> is a thin driver around the third-party
  \<^verbatim>\<open>speedtest\<close> module, the \<^verbatim>\<open>json\<close> module and the file system. None of these is
  part of the script, so each is an input of the model: the record \<open>env\<close> below holds what
  every call of the script into them answers (a value, or the exception it raises).
  Python floats are idealised as real numbers; their formatting is a function of \<open>env\<close>.
  What the script reads off a client whose calls returned (\<^verbatim>\<open>results.ping\<close>,
  \<^verbatim>\<open>config['client']\<close>, \<^verbatim>\<open>results.server\<close>) is there, as the module fills it in; command
  line arguments are taken as \<^verbatim>\<open>argparse\<close> hands them over.
\<close>

datatype exn_class =
    ImportError | SpeedtestException | JSONDecodeError | UnicodeDecodeError | AttributeError
  | OtherException | KeyboardInterrupt

datatype exn = Exn (exn_class: exn_class) (message: string)

definition is_Exception :: "exn_class \<Rightarrow> bool" where
  \<comment> \<open>\<^verbatim>\<open>except Exception\<close> catches every class but the ones deriving from BaseException only.\<close>
  "is_Exception c = (c \<noteq> KeyboardInterrupt)"

datatype abort = SystemExit int | Uncaught exn

definition exit_code :: "abort \<Rightarrow> int" where
  \<comment> \<open>The status the interpreter ends with: the argument of \<^verbatim>\<open>sys.exit\<close>, 1 after the traceback
      of an uncaught exception, 130 (SIGINT) for an uncaught KeyboardInterrupt.\<close>
  "exit_code a =
     (case a of
        SystemExit n \<Rightarrow> n
      | Uncaught e \<Rightarrow> (if exn_class e = KeyboardInterrupt then 130 else 1))"

datatype json =
    JNull | JBool bool | JInt int | JFloat real | JStr string
  | JArr "json list" | JObj "(string \<times> json) list"

fun py_type_name :: "json \<Rightarrow> string" where
  "py_type_name JNull = ''NoneType''"
| "py_type_name (JBool _) = ''bool''"
| "py_type_name (JInt _) = ''int''"
| "py_type_name (JFloat _) = ''float''"
| "py_type_name (JStr _) = ''str''"
| "py_type_name (JArr _) = ''list''"
| "py_type_name (JObj _) = ''dict''"

definition digit_char :: "nat \<Rightarrow> char" where
  "digit_char d = char_of (48 + d)"

fun str_nat :: "nat \<Rightarrow> string" where
  "str_nat n = (if n < 10 then [digit_char n] else str_nat (n div 10) @ [digit_char (n mod 10)])"

declare str_nat.simps [simp del]

subsection \<open>The speedtest module as the script sees it\<close>

record client_args =
  arg_source_address :: "string option option"
  arg_timeout :: "int option"
  arg_secure :: "bool option"

definition default_args :: client_args where
  \<comment> \<open>\<^verbatim>\<open>speedtest.Speedtest()\<close>: no keyword is passed, the module's defaults apply.\<close>
  "default_args = \<lparr>arg_source_address = None, arg_timeout = None, arg_secure = None\<rparr>"

definition run_args :: client_args where
  \<comment> \<open>\<^verbatim>\<open>speedtest.Speedtest(secure=True, source_address=None, timeout=10)\<close>\<close>
  "run_args = \<lparr>arg_source_address = Some None, arg_timeout = Some 10, arg_secure = Some True\<rparr>"

record server_dict =
  name :: string
  host :: string

datatype lib_call =
    Call_Speedtest client_args
  | Call_get_best_server client_args
  | Call_download client_args
  | Call_upload client_args

datatype lib_event = Returned lib_call | Raised lib_call exn

fun event_call :: "lib_event \<Rightarrow> lib_call" where
  "event_call (Returned c) = c"
| "event_call (Raised c _) = c"

fun call_client :: "lib_call \<Rightarrow> client_args" where
  "call_client (Call_Speedtest a) = a"
| "call_client (Call_get_best_server a) = a"
| "call_client (Call_download a) = a"
| "call_client (Call_upload a) = a"

fun is_measurement :: "lib_call \<Rightarrow> bool" where
  "is_measurement (Call_Speedtest _) = False"
| "is_measurement (Call_get_best_server _) = True"
| "is_measurement (Call_download _) = True"
| "is_measurement (Call_upload _) = True"

record env =
  import_speedtest :: "exn option"
  Speedtest :: "client_args \<Rightarrow> exn option"
  st_get_best_server :: "exn + server_dict"
  st_download :: "exn + real"
  st_upload :: "exn + real"
  st_results_ping :: real
  st_config_client_ip :: string
  st_config_client_isp :: string
  st_config_client_country :: string
  st_results_server :: server_dict
  datetime_now_isoformat :: string
  format_float :: "string \<Rightarrow> real \<Rightarrow> string"
  json_load :: "string \<Rightarrow> exn + json"
  json_dump :: "nat \<Rightarrow> json \<Rightarrow> string"

record world =
  stdout :: "string list"
  files :: "string \<rightharpoonup> string"
  calls :: "lib_event list"

type_synonym 'a py = "world \<Rightarrow> (exn + 'a) \<times> world"

definition py_bind :: "'a py \<Rightarrow> ('a \<Rightarrow> 'b py) \<Rightarrow> 'b py" where
  "py_bind m f = (\<lambda>w. case m w of (Inl e, w') \<Rightarrow> (Inl e, w') | (Inr a, w') \<Rightarrow> f a w')"

definition py_return :: "'a \<Rightarrow> 'a py" where
  "py_return a = (\<lambda>w. (Inr a, w))"

definition print :: "string \<Rightarrow> unit py" where
  "print s = (\<lambda>w. (Inr (), w\<lparr>stdout := stdout w @ [s]\<rparr>))"

definition print_if :: "bool \<Rightarrow> string \<Rightarrow> unit py" where
  "print_if b s = (if b then print s else py_return ())"

definition log_call :: "lib_event \<Rightarrow> world \<Rightarrow> world" where
  "log_call ev w = w\<lparr>calls := calls w @ [ev]\<rparr>"

definition new_Speedtest :: "env \<Rightarrow> client_args \<Rightarrow> client_args py" where
  \<comment> \<open>The constructor; the client object is represented by the arguments it was built with.\<close>
  "new_Speedtest env a =
     (\<lambda>w. case Speedtest env a of
             None \<Rightarrow> (Inr a, log_call (Returned (Call_Speedtest a)) w)
           | Some e \<Rightarrow> (Inl e, log_call (Raised (Call_Speedtest a) e) w))"

definition lib_method :: "lib_call \<Rightarrow> exn + 'a \<Rightarrow> 'a py" where
  "lib_method c answer =
     (\<lambda>w. case answer of
             Inr v \<Rightarrow> (Inr v, log_call (Returned c) w)
           | Inl e \<Rightarrow> (Inl e, log_call (Raised c e) w))"

definition get_best_server :: "env \<Rightarrow> client_args \<Rightarrow> server_dict py" where
  "get_best_server env st = lib_method (Call_get_best_server st) (st_get_best_server env)"

definition download_call :: "env \<Rightarrow> client_args \<Rightarrow> real py" where
  "download_call env st = lib_method (Call_download st) (st_download env)"

definition upload_call :: "env \<Rightarrow> client_args \<Rightarrow> real py" where
  "upload_call env st = lib_method (Call_upload st) (st_upload env)"

section \<open>The script\<close>

subsection \<open>check_library\<close>

definition check_library :: "env \<Rightarrow> world \<Rightarrow> (abort + bool) \<times> world" where
  "check_library env w =
     (case new_Speedtest env default_args w of
        (Inr st, w1) \<Rightarrow> (Inr True, w1)
      | (Inl e, w1) \<Rightarrow>
          if exn_class e = ImportError then
            (Inl (SystemExit 1),
             snd (print ''Error: 'speedtestcli' library not found. Install it with: pip install speedtestcli - speedtest_equivalent.py:24'' w1))
          else if is_Exception (exn_class e) then
            (Inl (SystemExit 1),
             snd (print ''Error initializing speedtest library: {e} - speedtest_equivalent.py:27'' w1))
          else (Inl (Uncaught e), w1))"

subsection \<open>run_speedtest\<close>

record results =
  ip :: string
  isp :: string
  country :: string
  latency :: string
  jitter :: string
  packet_loss :: string
  download :: string
  upload :: string
  server :: string
  timestamp :: string

definition run_speedtest_try :: "bool \<Rightarrow> env \<Rightarrow> results py" where
  \<comment> \<open>The body of the \<^verbatim>\<open>try\<close> block.\<close>
  "run_speedtest_try verbose env =
     py_bind (print_if verbose ''Initializing Speedtest... - speedtest_equivalent.py:37'') (\<lambda>_.
     py_bind (new_Speedtest env run_args) (\<lambda>st.
     py_bind (print_if verbose ''Speedtest initialized successfully. - speedtest_equivalent.py:48'') (\<lambda>_.
     py_bind (print ''Starting speed test... (Multiconnection mode) - speedtest_equivalent.py:51'') (\<lambda>_.
     py_bind (print ''Detecting best server... - speedtest_equivalent.py:52'') (\<lambda>_.
     py_bind (get_best_server env st) (\<lambda>best_server.
     py_bind (print_if verbose (''Selected server: '' @ name best_server @ '' ('' @ host best_server
                @ '') - speedtest_equivalent.py:57'')) (\<lambda>_.
     py_bind (print ''Testing download speed... - speedtest_equivalent.py:60'') (\<lambda>_.
     py_bind (download_call env st) (\<lambda>d.
     let download_speed = d / 1000000 in
     py_bind (print ''Testing upload speed... - speedtest_equivalent.py:64'') (\<lambda>_.
     py_bind (upload_call env st) (\<lambda>u.
     let upload_speed = u / 1000000;
         ping = st_results_ping env in
     py_bind (print_if verbose (''Raw ping result: '' @ format_float env '''' ping
                @ '' ms - speedtest_equivalent.py:70'')) (\<lambda>_.
     py_bind (print ''Testing latency and jitter... - speedtest_equivalent.py:75'') (\<lambda>_.
     let jitter = ''N/A (approx. 5-20ms variation)'';
         packet_loss = ''0%'';
         client_info = \<lparr>
           ip = st_config_client_ip env,
           isp = st_config_client_isp env,
           country = st_config_client_country env,
           latency = format_float env ''.2f'' ping @ '' ms'',
           jitter = jitter,
           packet_loss = packet_loss,
           download = format_float env ''.2f'' download_speed @ '' Mbps'',
           upload = format_float env ''.2f'' upload_speed @ '' Mbps'',
           server = name (st_results_server env),
           timestamp = datetime_now_isoformat env\<rparr> in
     py_bind (print_if verbose ''Speed test completed successfully. - speedtest_equivalent.py:96'') (\<lambda>_.
     py_return client_info))))))))))))))"

definition run_speedtest :: "bool \<Rightarrow> env \<Rightarrow> world \<Rightarrow> (abort + results) \<times> world" where
  "run_speedtest verbose env w =
     (case run_speedtest_try verbose env w of
        (Inr client_info, w1) \<Rightarrow> (Inr client_info, w1)
      | (Inl e, w1) \<Rightarrow>
          if exn_class e = SpeedtestException then
            (Inl (SystemExit 1),
             snd (print ''Tips: Check your internet connection, firewall, or try a different server. - speedtest_equivalent.py:102''
               (snd (print (''Speedtestspecific error: '' @ message e @ '' - speedtest_equivalent.py:101'') w1))))
          else if is_Exception (exn_class e) then
            (Inl (SystemExit 1),
             snd (print (''Unexpected error running speed test: '' @ message e @ '' - speedtest_equivalent.py:105'') w1))
          else (Inl (Uncaught e), w1))"

subsection \<open>display_results\<close>

definition display_results :: "results \<Rightarrow> unit py" where
  "display_results r =
     py_bind (print (CHR 0x0A # '' - speedtest_equivalent.py:112='')) (\<lambda>_.
     py_bind (print (''SPEEDTEST RESULTS (Powered by Ookla'' @ [CHR 0xC2, CHR 0xAE] @ '') - speedtest_equivalent.py:113'')) (\<lambda>_.
     py_bind (print ''= - speedtest_equivalent.py:114'') (\<lambda>_.
     py_bind (print (''Download Speed: '' @ download r @ '' - speedtest_equivalent.py:115'')) (\<lambda>_.
     py_bind (print (''Upload Speed:   '' @ upload r @ '' - speedtest_equivalent.py:116'')) (\<lambda>_.
     py_bind (print (''Ping/Latency:   '' @ latency r @ '' - speedtest_equivalent.py:117'')) (\<lambda>_.
     py_bind (print (''Jitter:         '' @ jitter r @ '' - speedtest_equivalent.py:118'')) (\<lambda>_.
     py_bind (print (''Packet Loss:    '' @ packet_loss r @ '' - speedtest_equivalent.py:119'')) (\<lambda>_.
     py_bind (print (''Server:         '' @ server r @ '' - speedtest_equivalent.py:120'')) (\<lambda>_.
     py_bind (print (''ISP:            '' @ isp r @ '' - speedtest_equivalent.py:121'')) (\<lambda>_.
     py_bind (print (''IP Address:     '' @ ip r @ '' - speedtest_equivalent.py:122'')) (\<lambda>_.
     py_bind (print (''Country:        '' @ country r @ '' - speedtest_equivalent.py:123'')) (\<lambda>_.
     py_bind (print (''Test Time:      '' @ timestamp r @ '' - speedtest_equivalent.py:124'')) (\<lambda>_.
     py_bind (print ''= - speedtest_equivalent.py:125'') (\<lambda>_.
     print ''Note: For advanced metrics (jitter/packet loss), consider custom tools like iperf3. - speedtest_equivalent.py:126''))))))))))))))"

subsection \<open>save_results\<close>

definition results_json :: "results \<Rightarrow> json" where
  \<comment> \<open>The dictionary \<^verbatim>\<open>client_info\<close> as a JSON object, keys in insertion order.\<close>
  "results_json r = JObj
     [(''ip'', JStr (ip r)), (''isp'', JStr (isp r)), (''country'', JStr (country r)),
      (''latency'', JStr (latency r)), (''jitter'', JStr (jitter r)),
      (''packet_loss'', JStr (packet_loss r)), (''download'', JStr (download r)),
      (''upload'', JStr (upload r)), (''server'', JStr (server r)),
      (''timestamp'', JStr (timestamp r))]"

definition corrupted_warning :: "string \<Rightarrow> string" where
  "corrupted_warning filename =
     ''Warning: '' @ filename @ '' is corrupted. Starting fresh. - speedtest_equivalent.py:138''"

definition load_results_list :: "env \<Rightarrow> string \<Rightarrow> json py" where
  \<comment> \<open>Lines 132 to 139: the value of \<^verbatim>\<open>results_list\<close> before the append.\<close>
  "load_results_list env filename =
     (\<lambda>w. case files w filename of
             None \<Rightarrow> (Inr (JArr []), w)
           | Some text \<Rightarrow>
               (case json_load env text of
                  Inr v \<Rightarrow> (Inr v, w)
                | Inl e \<Rightarrow>
                    if exn_class e = JSONDecodeError then
                      py_bind (print (corrupted_warning filename)) (\<lambda>_. py_return (JArr [])) w
                    else (Inl e, w)))"

definition list_append :: "json \<Rightarrow> json \<Rightarrow> json py" where
  \<comment> \<open>\<^verbatim>\<open>results_list.append(results)\<close>: only a list has the method.\<close>
  "list_append results_list x =
     (case results_list of
        JArr xs \<Rightarrow> py_return (JArr (xs @ [x]))
      | v \<Rightarrow> (\<lambda>w. (Inl (Exn AttributeError
                 ([CHR 0x27] @ py_type_name v @ [CHR 0x27] @ '' object has no attribute ''
                  @ [CHR 0x27] @ ''append'' @ [CHR 0x27])), w)))"

definition write_file :: "string \<Rightarrow> string \<Rightarrow> unit py" where
  "write_file filename text = (\<lambda>w. (Inr (), w\<lparr>files := (files w)(filename \<mapsto> text)\<rparr>))"

fun py_len :: "json \<Rightarrow> nat" where
  "py_len (JArr xs) = length xs"
| "py_len (JObj kvs) = length kvs"
| "py_len (JStr s) = length s"
| "py_len _ = 0"

definition save_results :: "env \<Rightarrow> json \<Rightarrow> string \<Rightarrow> unit py" where
  "save_results env results filename =
     py_bind (load_results_list env filename) (\<lambda>loaded.
     py_bind (list_append loaded results) (\<lambda>results_list.
     py_bind (write_file filename (json_dump env 4 results_list)) (\<lambda>_.
     print (CHR 0x0A # ''Results saved to '' @ filename @ '' (Total tests: ''
            @ str_nat (py_len results_list) @ '') - speedtest_equivalent.py:146''))))"

subsection \<open>main and the script as a process\<close>

record args =
  save :: bool
  verbose :: bool

definition main :: "args \<Rightarrow> env \<Rightarrow> world \<Rightarrow> abort \<times> world" where
  \<comment> \<open>\<^verbatim>\<open>args\<close> is what \<^verbatim>\<open>parser.parse_args()\<close> returned.\<close>
  "main a env w =
     (case check_library env w of
        (Inl stop, w1) \<Rightarrow> (stop, w1)
      | (Inr _, w1) \<Rightarrow>
          (case run_speedtest (verbose a) env w1 of
             (Inl stop, w2) \<Rightarrow> (stop, w2)
           | (Inr results, w2) \<Rightarrow>
               (case display_results results w2 of
                  (Inl e, w3) \<Rightarrow> (Uncaught e, w3)
                | (Inr _, w3) \<Rightarrow>
                    if save a then
                      (case save_results env (results_json results) ''speedtest_results.json'' w3 of
                         (Inl e, w4) \<Rightarrow> (Uncaught e, w4)
                       | (Inr _, w4) \<Rightarrow> (SystemExit 0, w4))
                    else (SystemExit 0, w3))))"

definition script :: "args \<Rightarrow> env \<Rightarrow> world \<Rightarrow> abort \<times> world" where
  \<comment> \<open>Line 8, \<^verbatim>\<open>import speedtest\<close>, runs before \<^verbatim>\<open>main\<close>; nothing catches its failure.\<close>
  "script a env w =
     (case import_speedtest env of
        Some e \<Rightarrow> (Uncaught e, w)
      | None \<Rightarrow> main a env w)"

definition handled :: "exn \<Rightarrow> abort" where
  \<comment> \<open>What either \<^verbatim>\<open>try\<close> ladder of the script makes of an exception raised in its body:
      every handler ends in \<^verbatim>\<open>sys.exit(1)\<close>, and what no handler catches propagates.\<close>
  "handled e = (if is_Exception (exn_class e) then SystemExit 1 else Uncaught e)"

section \<open>The quantities the specification asks for\<close>

text \<open>
  The specification derives packet loss and jitter from a sequence of probe samples. The two
  definitions below follow its words; the script has no counterpart of either.
\<close>

record probe_sample =
  server_id :: string
  round_trip_time_ms :: real
  succeeded :: bool

definition spec_loss_ratio :: "probe_sample list \<Rightarrow> real" where
  \<comment> \<open>"Loss ratio = failed/total attempts."\<close>
  "spec_loss_ratio samples =
     real (length (filter (\<lambda>s. \<not> succeeded s) samples)) / real (length samples)"

definition spec_jitter_ms :: "probe_sample list \<Rightarrow> real" where
  \<comment> \<open>"Jitter = mean absolute difference between consecutive successful round-trip times."\<close>
  "spec_jitter_ms samples =
     (let rtts = map round_trip_time_ms (filter succeeded samples);
          diffs = map (\<lambda>(a, b). \<bar>b - a\<bar>) (zip rtts (tl rtts))
      in sum_list diffs / real (length diffs))"

section \<open>A sample environment\<close>

text \<open>
  One concrete run, for evaluating the script: every call into the speedtest module
  succeeds, and the JSON codec is a table over the few texts the examples read and write.
\<close>

definition example_server :: server_dict where
  "example_server = \<lparr>name = ''Frankfurt'', host = ''speedtest.example.net:8080''\<rparr>"

definition example_format_float :: "string \<Rightarrow> real \<Rightarrow> string" where
  "example_format_float spec x =
     (if spec = ''.2f'' then
        (if x = 100 then ''100.00'' else if x = 20 then ''20.00'' else ''0.00'')
      else ''20.0'')"

definition example_json_load :: "string \<Rightarrow> exn + json" where
  "example_json_load text =
     (if text = ''[{\"server\": \"A\"}]'' then Inr (JArr [JObj [(''server'', JStr ''A'')]])
      else if text = ''[{\"server\": \"A\"}, {\"server\": \"B\"}]'' then
        Inr (JArr [JObj [(''server'', JStr ''A'')], JObj [(''server'', JStr ''B'')]])
      else if text = ''[{\"server\": \"B\"}]'' then Inr (JArr [JObj [(''server'', JStr ''B'')]])
      else if text = ''{\"server\": \"A\"}'' then Inr (JObj [(''server'', JStr ''A'')])
      else if text = [CHR 0xFF, CHR 0xFE] then
        Inl (Exn UnicodeDecodeError ''invalid start byte'')
      else Inl (Exn JSONDecodeError ''Expecting value: line 1 column 1 (char 0)''))"

definition example_json_dump :: "nat \<Rightarrow> json \<Rightarrow> string" where
  "example_json_dump indent v =
     (if v = JArr [JObj [(''server'', JStr ''A'')], JObj [(''server'', JStr ''B'')]] then
        ''[{\"server\": \"A\"}, {\"server\": \"B\"}]''
      else if v = JArr [JObj [(''server'', JStr ''B'')]] then ''[{\"server\": \"B\"}]''
      else ''null'')"

definition example_env :: env where
  "example_env = \<lparr>
     import_speedtest = None,
     Speedtest = (\<lambda>_. None),
     st_get_best_server = Inr example_server,
     st_download = Inr 100000000,
     st_upload = Inr 20000000,
     st_results_ping = 20,
     st_config_client_ip = ''192.0.2.1'',
     st_config_client_isp = ''Example ISP'',
     st_config_client_country = ''DE'',
     st_results_server = example_server,
     datetime_now_isoformat = ''2024-01-01T12:00:00'',
     format_float = example_format_float,
     json_load = example_json_load,
     json_dump = example_json_dump\<rparr>"

definition example_world :: "string option \<Rightarrow> world" where
  \<comment> \<open>Nothing printed or called yet; the result log is absent or holds the given text.\<close>
  "example_world log_text = \<lparr>stdout = [],
     files = (\<lambda>f. if f = ''speedtest_results.json'' then log_text else None),
     calls = []\<rparr>"

section \<open>Evaluating the script\<close>

lemmas py_defs = py_bind_def py_return_def print_def print_if_def log_call_def
  new_Speedtest_def lib_method_def get_best_server_def download_call_def upload_call_def

lemmas example_defs = example_env_def example_world_def example_json_load_def
  example_json_dump_def example_format_float_def example_server_def

lemma str_nat_1: "str_nat (Suc 0) = ''1''"
  by code_simp

subsection \<open>save_results, by what the log holds\<close>

lemma save_results_absent:
  assumes "files w filename = None"
  shows "save_results env r filename w =
     (Inr (), w\<lparr>files := (files w)(filename \<mapsto> json_dump env 4 (JArr [r])),
               stdout := stdout w @ [CHR 0x0A # ''Results saved to '' @ filename
                 @ '' (Total tests: 1) - speedtest_equivalent.py:146'']\<rparr>)"
  using assms
  by (simp add: save_results_def load_results_list_def list_append_def write_file_def
      py_bind_def py_return_def print_def str_nat_1)



lemma save_results_not_a_list:
  assumes "files w filename = Some text" "json_load env text = Inr v" "\<forall>xs. v \<noteq> JArr xs"
  shows "\<exists>e. save_results env r filename w = (Inl e, w)"
  using assms
  by (cases v) (simp_all add: save_results_def load_results_list_def list_append_def
      py_bind_def py_return_def)


subsection \<open>The stages of a run, by what the speedtest module answers\<close>

lemma exit_code_handled: "exit_code (handled e) \<noteq> 0"
  by (simp add: handled_def exit_code_def is_Exception_def)

lemma try_init_fails:
  assumes "Speedtest env run_args = Some e"
  shows "fst (run_speedtest_try v env w) = Inl e"
    and "calls (snd (run_speedtest_try v env w)) = calls w @ [Raised (Call_Speedtest run_args) e]"
    and "files (snd (run_speedtest_try v env w)) = files w"
  using assms by (simp_all add: run_speedtest_try_def py_defs Let_def)

lemma try_select_fails:
  assumes "Speedtest env run_args = None" "st_get_best_server env = Inl e"
  shows "fst (run_speedtest_try v env w) = Inl e"
    and "calls (snd (run_speedtest_try v env w)) = calls w @
          [Returned (Call_Speedtest run_args), Raised (Call_get_best_server run_args) e]"
    and "files (snd (run_speedtest_try v env w)) = files w"
  using assms by (simp_all add: run_speedtest_try_def py_defs Let_def)

lemma try_download_fails:
  assumes "Speedtest env run_args = None" "st_get_best_server env = Inr b" "st_download env = Inl e"
  shows "fst (run_speedtest_try v env w) = Inl e"
    and "calls (snd (run_speedtest_try v env w)) = calls w @
          [Returned (Call_Speedtest run_args), Returned (Call_get_best_server run_args),
           Raised (Call_download run_args) e]"
    and "files (snd (run_speedtest_try v env w)) = files w"
  using assms by (simp_all add: run_speedtest_try_def py_defs Let_def)

lemma try_upload_fails:
  assumes "Speedtest env run_args = None" "st_get_best_server env = Inr b" "st_download env = Inr d"
    "st_upload env = Inl e"
  shows "fst (run_speedtest_try v env w) = Inl e"
    and "calls (snd (run_speedtest_try v env w)) = calls w @
          [Returned (Call_Speedtest run_args), Returned (Call_get_best_server run_args),
           Returned (Call_download run_args), Raised (Call_upload run_args) e]"
    and "files (snd (run_speedtest_try v env w)) = files w"
  using assms by (simp_all add: run_speedtest_try_def py_defs Let_def)

lemma try_succeeds:
  assumes "Speedtest env run_args = None" "st_get_best_server env = Inr b" "st_download env = Inr d"
    "st_upload env = Inr u"
  shows "fst (run_speedtest_try v env w) = Inr \<lparr>
           ip = st_config_client_ip env,
           isp = st_config_client_isp env,
           country = st_config_client_country env,
           latency = format_float env ''.2f'' (st_results_ping env) @ '' ms'',
           jitter = ''N/A (approx. 5-20ms variation)'',
           packet_loss = ''0%'',
           download = format_float env ''.2f'' (d / 1000000) @ '' Mbps'',
           upload = format_float env ''.2f'' (u / 1000000) @ '' Mbps'',
           server = name (st_results_server env),
           timestamp = datetime_now_isoformat env\<rparr>"
    and "calls (snd (run_speedtest_try v env w)) = calls w @
          [Returned (Call_Speedtest run_args), Returned (Call_get_best_server run_args),
           Returned (Call_download run_args), Returned (Call_upload run_args)]"
    and "files (snd (run_speedtest_try v env w)) = files w"
  using assms by (simp_all add: run_speedtest_try_def py_defs Let_def)

lemma run_speedtest_proj:
  "calls (snd (run_speedtest v env w)) = calls (snd (run_speedtest_try v env w))"
  "files (snd (run_speedtest v env w)) = files (snd (run_speedtest_try v env w))"
  "fst (run_speedtest v env w) =
     (case fst (run_speedtest_try v env w) of
        Inr r \<Rightarrow> Inr r
      | Inl e \<Rightarrow> Inl (handled e))"
  by (auto simp add: run_speedtest_def print_def is_Exception_def handled_def
      split: prod.splits sum.splits)

lemma check_library_ok:
  assumes "Speedtest env default_args = None"
  shows "check_library env w =
    (Inr True, w\<lparr>calls := calls w @ [Returned (Call_Speedtest default_args)]\<rparr>)"
  using assms by (simp add: check_library_def py_defs)

lemma check_library_fails:
  assumes "Speedtest env default_args = Some e"
  shows "fst (check_library env w) = Inl (handled e)"
    and "calls (snd (check_library env w)) = calls w @ [Raised (Call_Speedtest default_args) e]"
    and "files (snd (check_library env w)) = files w"
  using assms by (auto simp add: check_library_def py_defs handled_def is_Exception_def)

lemma display_results_proj:
  "fst (display_results r w) = Inr ()"
  "calls (snd (display_results r w)) = calls w"
  "files (snd (display_results r w)) = files w"
  by (simp_all add: display_results_def py_bind_def print_def)


lemma run_speedtest_files: "files (snd (run_speedtest v env w)) = files w"
proof (cases "Speedtest env run_args")
  case (Some e)
  then show ?thesis by (simp add: run_speedtest_proj try_init_fails)
next
  case None
  note init = this
  show ?thesis
  proof (cases "st_get_best_server env")
    case (Inl e)
    with init show ?thesis by (simp add: run_speedtest_proj try_select_fails)
  next
    case (Inr b)
    note sel = this
    show ?thesis
    proof (cases "st_download env")
      case (Inl e)
      with init sel show ?thesis by (simp add: run_speedtest_proj try_download_fails)
    next
      case (Inr d)
      note dl = this
      show ?thesis
      proof (cases "st_upload env")
        case (Inl e)
        with init sel dl show ?thesis by (simp add: run_speedtest_proj try_upload_fails)
      next
        case (Inr u)
        with init sel dl show ?thesis by (simp add: run_speedtest_proj try_succeeds)
      qed
    qed
  qed
qed

lemma main_stop_at_check:
  assumes "Speedtest env default_args = Some e"
  shows "main a env w = (handled e, snd (check_library env w))"
proof -
  obtain x w1 where chk: "check_library env w = (x, w1)"
    by (cases "check_library env w")
  with check_library_fails(1) [OF assms, of w] have "x = Inl (handled e)" by simp
  with chk show ?thesis
    by (simp add: main_def)
qed

lemma main_stop_at_run:
  assumes "Speedtest env default_args = None"
    and "fst (run_speedtest (verbose a) env
           (w\<lparr>calls := calls w @ [Returned (Call_Speedtest default_args)]\<rparr>)) = Inl stop"
  shows "main a env w = (stop, snd (run_speedtest (verbose a) env
           (w\<lparr>calls := calls w @ [Returned (Call_Speedtest default_args)]\<rparr>)))"
proof -
  obtain x w1 where run: "run_speedtest (verbose a) env
      (w\<lparr>calls := calls w @ [Returned (Call_Speedtest default_args)]\<rparr>) = (x, w1)"
    by (cases "run_speedtest (verbose a) env
      (w\<lparr>calls := calls w @ [Returned (Call_Speedtest default_args)]\<rparr>)")
  with assms(2) have "x = Inl stop" by simp
  with run show ?thesis
    by (simp add: main_def check_library_ok [OF assms(1)])
qed

lemma main_after_run:
  assumes "Speedtest env default_args = None"
    and "fst (run_speedtest (verbose a) env
           (w\<lparr>calls := calls w @ [Returned (Call_Speedtest default_args)]\<rparr>)) = Inr r"
  shows "main a env w =
     (if save a then
        (case fst (save_results env (results_json r) ''speedtest_results.json''
             (snd (display_results r (snd (run_speedtest (verbose a) env
                (w\<lparr>calls := calls w @ [Returned (Call_Speedtest default_args)]\<rparr>)))))) of
           Inl e \<Rightarrow> Uncaught e | Inr _ \<Rightarrow> SystemExit 0,
         snd (save_results env (results_json r) ''speedtest_results.json''
             (snd (display_results r (snd (run_speedtest (verbose a) env
                (w\<lparr>calls := calls w @ [Returned (Call_Speedtest default_args)]\<rparr>)))))))
      else (SystemExit 0, snd (display_results r (snd (run_speedtest (verbose a) env
                (w\<lparr>calls := calls w @ [Returned (Call_Speedtest default_args)]\<rparr>))))))"
proof -
  obtain x w1 where run: "run_speedtest (verbose a) env
      (w\<lparr>calls := calls w @ [Returned (Call_Speedtest default_args)]\<rparr>) = (x, w1)"
    by (cases "run_speedtest (verbose a) env
      (w\<lparr>calls := calls w @ [Returned (Call_Speedtest default_args)]\<rparr>)")
  with assms(2) have x: "x = Inr r" by simp
  obtain y w2 where disp: "display_results r w1 = (y, w2)"
    by (cases "display_results r w1")
  with display_results_proj(1) [of r w1] have y: "y = Inr ()" by simp
  obtain z w3 where sv: "save_results env (results_json r) ''speedtest_results.json'' w2 = (z, w3)"
    by (cases "save_results env (results_json r) ''speedtest_results.json'' w2")
  show ?thesis
    by (cases z) (simp_all add: main_def check_library_ok [OF assms(1)] run x disp y sv)
qed

lemma save_results_calls: "calls (snd (save_results env r filename w)) = calls w"
  by (cases "files w filename")
     (auto simp add: save_results_def load_results_list_def list_append_def write_file_def
        py_bind_def py_return_def print_def split: sum.splits json.splits)

lemma save_results_returns_iff:
  "fst (save_results env r filename w) = Inr () \<longleftrightarrow>
     (case files w filename of
        None \<Rightarrow> True
      | Some contents \<Rightarrow>
          (case json_load env contents of
             Inl e \<Rightarrow> exn_class e = JSONDecodeError
           | Inr v \<Rightarrow> (case v of JArr _ \<Rightarrow> True | _ \<Rightarrow> False)))"
  by (cases "files w filename")
     (auto simp add: save_results_def load_results_list_def list_append_def write_file_def
        py_bind_def py_return_def print_def split: sum.splits json.splits)

lemma run_speedtest_cases [case_names init select download upload finished]:
  obtains
    (init) e where "Speedtest env run_args = Some e"
      "fst (run_speedtest v env w) = Inl (handled e)"
      "calls (snd (run_speedtest v env w)) = calls w @ [Raised (Call_Speedtest run_args) e]"
  | (select) e where "Speedtest env run_args = None" "st_get_best_server env = Inl e"
      "fst (run_speedtest v env w) = Inl (handled e)"
      "calls (snd (run_speedtest v env w)) = calls w @
          [Returned (Call_Speedtest run_args), Raised (Call_get_best_server run_args) e]"
  | (download) b e where "Speedtest env run_args = None" "st_get_best_server env = Inr b"
      "st_download env = Inl e"
      "fst (run_speedtest v env w) = Inl (handled e)"
      "calls (snd (run_speedtest v env w)) = calls w @
          [Returned (Call_Speedtest run_args), Returned (Call_get_best_server run_args),
           Raised (Call_download run_args) e]"
  | (upload) b d e where "Speedtest env run_args = None" "st_get_best_server env = Inr b"
      "st_download env = Inr d" "st_upload env = Inl e"
      "fst (run_speedtest v env w) = Inl (handled e)"
      "calls (snd (run_speedtest v env w)) = calls w @
          [Returned (Call_Speedtest run_args), Returned (Call_get_best_server run_args),
           Returned (Call_download run_args), Raised (Call_upload run_args) e]"
  | (finished) b d u r where "Speedtest env run_args = None" "st_get_best_server env = Inr b"
      "st_download env = Inr d" "st_upload env = Inr u"
      "fst (run_speedtest v env w) = Inr r"
      "calls (snd (run_speedtest v env w)) = calls w @
          [Returned (Call_Speedtest run_args), Returned (Call_get_best_server run_args),
           Returned (Call_download run_args), Returned (Call_upload run_args)]"
proof (cases "Speedtest env run_args")
  case (Some e)
  then show ?thesis
    using init [of e] by (simp add: run_speedtest_proj try_init_fails)
next
  case None
  note i = this
  show ?thesis
  proof (cases "st_get_best_server env")
    case (Inl e)
    with i show ?thesis
      using select [of e] by (simp add: run_speedtest_proj try_select_fails)
  next
    case (Inr b)
    note s = this
    show ?thesis
    proof (cases "st_download env")
      case (Inl e)
      with i s show ?thesis
        using download [of b e] by (simp add: run_speedtest_proj try_download_fails)
    next
      case (Inr d)
      note dl = this
      show ?thesis
      proof (cases "st_upload env")
        case (Inl e)
        with i s dl show ?thesis
          using upload [of b d e] by (simp add: run_speedtest_proj try_upload_fails)
      next
        case (Inr u)
        with i s dl show ?thesis
          using finished [of b d u] by (simp add: run_speedtest_proj try_succeeds)
      qed
    qed
  qed
qed

lemma main_calls:
  assumes "Speedtest env default_args = None"
  shows "calls (snd (main a env w)) = calls (snd (run_speedtest (verbose a) env
           (w\<lparr>calls := calls w @ [Returned (Call_Speedtest default_args)]\<rparr>)))"
proof (cases "fst (run_speedtest (verbose a) env
           (w\<lparr>calls := calls w @ [Returned (Call_Speedtest default_args)]\<rparr>))")
  case (Inl stop)
  then show ?thesis by (simp add: main_stop_at_run [OF assms])
next
  case (Inr r)
  then show ?thesis
    by (simp add: main_after_run [OF assms] save_results_calls display_results_proj)
qed

lemma script_calls_cases [case_names no_import no_check ran]:
  obtains
    (no_import) e where "import_speedtest env = Some e" "script a env w = (Uncaught e, w)"
  | (no_check) e where "import_speedtest env = None" "Speedtest env default_args = Some e"
      "fst (script a env w) = handled e"
      "calls (snd (script a env w)) = calls w @ [Raised (Call_Speedtest default_args) e]"
      "files (snd (script a env w)) = files w"
  | (ran) "import_speedtest env = None" "Speedtest env default_args = None"
      "script a env w = main a env w"
      "calls (snd (script a env w)) = calls (snd (run_speedtest (verbose a) env
           (w\<lparr>calls := calls w @ [Returned (Call_Speedtest default_args)]\<rparr>)))"
proof (cases "import_speedtest env")
  case (Some e)
  then show ?thesis using no_import [of e] by (simp add: script_def)
next
  case None
  note imp = this
  show ?thesis
  proof (cases "Speedtest env default_args")
    case (Some e)
    with imp show ?thesis
      using no_check [of e]
      by (simp add: script_def main_stop_at_check check_library_fails)
  next
    case None
    with imp show ?thesis
      using ran by (simp add: script_def main_calls)
  qed
qed

lemma exit_code_Uncaught: "exit_code (Uncaught e) \<noteq> 0"
  by (simp add: exit_code_def)

lemma exit_code_after_save:
  "exit_code (case x of Inl e \<Rightarrow> Uncaught e | Inr (_::unit) \<Rightarrow> SystemExit 0) = 0 \<longleftrightarrow> x = Inr ()"
  by (cases x) (simp_all add: exit_code_def)

section \<open>The result log\<close>




text \<open>
  Claim C9. When the log does not exist, saving returns normally, creates the file with the
  text \<^verbatim>\<open>json.dump\<close> gives for the one-element list holding the record, and prints the
  "Results saved" line only: the corruption warning is not among the lines printed. Where
  \<^verbatim>\<open>json.load\<close> reads that text back as what was dumped, the new file reads as a JSON
  array holding exactly the record.
\<close>

theorem save_results_creates_log:
  "files w filename = None \<longrightarrow>
     fst (save_results env r filename w) = Inr ()
   \<and> files (snd (save_results env r filename w)) filename = Some (json_dump env 4 (JArr [r]))
   \<and> stdout (snd (save_results env r filename w)) =
        stdout w @ [CHR 0x0A # ''Results saved to '' @ filename
          @ '' (Total tests: 1) - speedtest_equivalent.py:146'']
   \<and> corrupted_warning filename \<notin>
        set (drop (length (stdout w)) (stdout (snd (save_results env r filename w))))
   \<and> (json_load env (json_dump env 4 (JArr [r])) = Inr (JArr [r]) \<longrightarrow>
        (\<exists>text'. files (snd (save_results env r filename w)) filename = Some text'
           \<and> json_load env text' = Inr (JArr [r])))"
proof (intro impI)
  assume absent: "files w filename = None"
  have run: "save_results env r filename w =
     (Inr (), w\<lparr>files := (files w)(filename \<mapsto> json_dump env 4 (JArr [r])),
               stdout := stdout w @ [CHR 0x0A # ''Results saved to '' @ filename
                 @ '' (Total tests: 1) - speedtest_equivalent.py:146'']\<rparr>)"
    by (rule save_results_absent [OF absent])
  show "fst (save_results env r filename w) = Inr ()
   \<and> files (snd (save_results env r filename w)) filename = Some (json_dump env 4 (JArr [r]))
   \<and> stdout (snd (save_results env r filename w)) =
        stdout w @ [CHR 0x0A # ''Results saved to '' @ filename
          @ '' (Total tests: 1) - speedtest_equivalent.py:146'']
   \<and> corrupted_warning filename \<notin>
        set (drop (length (stdout w)) (stdout (snd (save_results env r filename w))))
   \<and> (json_load env (json_dump env 4 (JArr [r])) = Inr (JArr [r]) \<longrightarrow>
        (\<exists>text'. files (snd (save_results env r filename w)) filename = Some text'
           \<and> json_load env text' = Inr (JArr [r])))"
    unfolding run by (simp add: corrupted_warning_def)
qed

theorem save_results_creates_log_witness:
  "files (example_world None) ''speedtest_results.json'' = None
   \<and> json_load example_env (json_dump example_env 4 (JArr [JObj [(''server'', JStr ''B'')]]))
       = Inr (JArr [JObj [(''server'', JStr ''B'')]])
   \<and> fst (save_results example_env (JObj [(''server'', JStr ''B'')]) ''speedtest_results.json''
        (example_world None)) = Inr ()
   \<and> stdout (snd (save_results example_env (JObj [(''server'', JStr ''B'')])
        ''speedtest_results.json'' (example_world None))) =
        [CHR 0x0A # ''Results saved to speedtest_results.json (Total tests: 1) - speedtest_equivalent.py:146'']
   \<and> (\<exists>text'. files (snd (save_results example_env (JObj [(''server'', JStr ''B'')])
          ''speedtest_results.json'' (example_world None))) ''speedtest_results.json'' = Some text'
        \<and> json_load example_env text' = Inr (JArr [JObj [(''server'', JStr ''B'')]]))"
proof -
  have absent: "files (example_world None) ''speedtest_results.json'' = None"
    by (simp add: example_defs)
  have codec: "json_load example_env (json_dump example_env 4 (JArr [JObj [(''server'', JStr ''B'')]]))
       = Inr (JArr [JObj [(''server'', JStr ''B'')]])"
    by (simp add: example_defs)
  have empty: "stdout (example_world None) = []"
    by (simp add: example_defs)
  from absent codec empty
    save_results_creates_log [where w = "example_world None"
      and filename = "''speedtest_results.json''" and env = example_env
      and r = "JObj [(''server'', JStr ''B'')]"]
  show ?thesis
    by simp
qed

section \<open>The order of the stages\<close>

text \<open>
  Claim C7. The calls a run makes into the speedtest module are an initial part of the fixed
  sequence: build the client, \<^verbatim>\<open>get_best_server\<close> (discovery, probing and selection),
  \<^verbatim>\<open>download\<close>, \<^verbatim>\<open>upload\<close>. Every call but the last one made has returned normally, so
  a stage starts only after the one before it completed; in particular, whenever
  \<^verbatim>\<open>upload\<close> is called, \<^verbatim>\<open>download\<close> has returned before. The result record is built
  (the run returns it) exactly when all four calls returned.
\<close>

theorem run_speedtest_stage_order:
  "\<exists>tr. calls (snd (run_speedtest v env w)) = calls w @ tr
     \<and> prefix (map event_call tr)
          [Call_Speedtest run_args, Call_get_best_server run_args,
           Call_download run_args, Call_upload run_args]
     \<and> (\<forall>ev \<in> set (butlast tr). ev = Returned (event_call ev))
     \<and> (Call_upload run_args \<in> event_call ` set tr \<longrightarrow>
          Returned (Call_download run_args)
            \<in> set (takeWhile (\<lambda>ev. event_call ev \<noteq> Call_upload run_args) tr))
     \<and> ((\<exists>r. fst (run_speedtest v env w) = Inr r) \<longleftrightarrow>
          tr = map Returned
            [Call_Speedtest run_args, Call_get_best_server run_args,
             Call_download run_args, Call_upload run_args])"
proof (cases v env w rule: run_speedtest_cases)
  case (init e)
  show ?thesis
    by (rule exI [of _ "[Raised (Call_Speedtest run_args) e]"]) (simp add: init)
next
  case (select e)
  show ?thesis
    by (rule exI [of _ "[Returned (Call_Speedtest run_args),
          Raised (Call_get_best_server run_args) e]"]) (simp add: select)
next
  case (download b e)
  show ?thesis
    by (rule exI [of _ "[Returned (Call_Speedtest run_args),
          Returned (Call_get_best_server run_args), Raised (Call_download run_args) e]"])
       (simp add: download)
next
  case (upload b d e)
  show ?thesis
    by (rule exI [of _ "[Returned (Call_Speedtest run_args),
          Returned (Call_get_best_server run_args), Returned (Call_download run_args),
          Raised (Call_upload run_args) e]"])
       (simp add: upload)
next
  case (finished b d u r)
  show ?thesis
    by (rule exI [of _ "[Returned (Call_Speedtest run_args),
          Returned (Call_get_best_server run_args), Returned (Call_download run_args),
          Returned (Call_upload run_args)]"])
       (simp add: finished)
qed

theorem run_speedtest_stage_order_witness:
  "calls (snd (run_speedtest False example_env (example_world None))) =
     [Returned (Call_Speedtest run_args), Returned (Call_get_best_server run_args),
      Returned (Call_download run_args), Returned (Call_upload run_args)]
   \<and> Call_upload run_args
       \<in> event_call ` set (calls (snd (run_speedtest False example_env (example_world None))))
   \<and> Returned (Call_download run_args)
       \<in> set (takeWhile (\<lambda>ev. event_call ev \<noteq> Call_upload run_args)
            (calls (snd (run_speedtest False example_env (example_world None)))))
   \<and> (\<exists>r. fst (run_speedtest False example_env (example_world None)) = Inr r)"
proof -
  obtain tr where start: "calls (snd (run_speedtest False example_env (example_world None)))
        = calls (example_world None) @ tr"
    and before: "Call_upload run_args \<in> event_call ` set tr \<longrightarrow>
          Returned (Call_download run_args)
            \<in> set (takeWhile (\<lambda>ev. event_call ev \<noteq> Call_upload run_args) tr)"
    and built: "(\<exists>r. fst (run_speedtest False example_env (example_world None)) = Inr r) \<longleftrightarrow>
          tr = map Returned
            [Call_Speedtest run_args, Call_get_best_server run_args,
             Call_download run_args, Call_upload run_args]"
    using run_speedtest_stage_order [of False example_env "example_world None"] by blast
  have answers: "Speedtest example_env run_args = None"
    "st_get_best_server example_env = Inr example_server"
    "st_download example_env = Inr 100000000" "st_upload example_env = Inr 20000000"
    by (simp_all add: example_env_def)
  have made: "calls (snd (run_speedtest False example_env (example_world None))) =
     [Returned (Call_Speedtest run_args), Returned (Call_get_best_server run_args),
      Returned (Call_download run_args), Returned (Call_upload run_args)]"
    by (simp add: run_speedtest_proj try_succeeds(2) [OF answers] example_world_def)
  from start made have tr: "tr = [Returned (Call_Speedtest run_args),
      Returned (Call_get_best_server run_args),
      Returned (Call_download run_args), Returned (Call_upload run_args)]"
    by (simp add: example_world_def)
  from tr have called: "Call_upload run_args \<in> event_call ` set tr"
    by simp
  with before have "Returned (Call_download run_args)
      \<in> set (takeWhile (\<lambda>ev. event_call ev \<noteq> Call_upload run_args) tr)"
    by blast
  moreover from built tr have "\<exists>r. fst (run_speedtest False example_env (example_world None)) = Inr r"
    by simp
  ultimately show ?thesis
    using made tr called by simp
qed

section \<open>Transport\<close>

text \<open>
  Claim C8. The client a run measures with is built with \<^verbatim>\<open>secure=True\<close>: the first call
  of \<^verbatim>\<open>run_speedtest\<close> into the speedtest module is the constructor with that argument,
  and every call the run makes is on that client. Over the whole script, every measurement
  call (\<^verbatim>\<open>get_best_server\<close>, \<^verbatim>\<open>download\<close>, \<^verbatim>\<open>upload\<close>) is made on a client built with
  \<^verbatim>\<open>secure=True\<close>. (The throw-away client of \<^verbatim>\<open>check_library\<close> is built with the
  module's defaults and measures nothing.)
\<close>

theorem measurement_client_secure:
  "(\<exists>tr. calls (snd (run_speedtest v env w)) = calls w @ tr
      \<and> tr \<noteq> []
      \<and> event_call (hd tr) = Call_Speedtest run_args
      \<and> arg_secure run_args = Some True
      \<and> (\<forall>ev \<in> set tr. arg_secure (call_client (event_call ev)) = Some True))
 \<and> (\<exists>tr. calls (snd (script a env w)) = calls w @ tr
      \<and> (\<forall>ev \<in> set tr. is_measurement (event_call ev) \<longrightarrow>
            arg_secure (call_client (event_call ev)) = Some True))"
proof
  show "\<exists>tr. calls (snd (run_speedtest v env w)) = calls w @ tr
      \<and> tr \<noteq> []
      \<and> event_call (hd tr) = Call_Speedtest run_args
      \<and> arg_secure run_args = Some True
      \<and> (\<forall>ev \<in> set tr. arg_secure (call_client (event_call ev)) = Some True)"
    by (cases v env w rule: run_speedtest_cases) (simp_all add: run_args_def)
next
  show "\<exists>tr. calls (snd (script a env w)) = calls w @ tr
      \<and> (\<forall>ev \<in> set tr. is_measurement (event_call ev) \<longrightarrow>
            arg_secure (call_client (event_call ev)) = Some True)"
  proof (cases a env w rule: script_calls_cases)
    case (no_import e)
    then show ?thesis by simp
  next
    case (no_check e)
    then show ?thesis by simp
  next
    case ran
    show ?thesis
      by (cases "verbose a" env "w\<lparr>calls := calls w @ [Returned (Call_Speedtest default_args)]\<rparr>"
          rule: run_speedtest_cases)
         (simp_all add: ran(4) run_args_def)
  qed
qed

theorem measurement_client_secure_witness:
  "calls (snd (script \<lparr>save = False, verbose = False\<rparr> example_env (example_world None))) =
     [Returned (Call_Speedtest default_args), Returned (Call_Speedtest run_args),
      Returned (Call_get_best_server run_args), Returned (Call_download run_args),
      Returned (Call_upload run_args)]
   \<and> is_measurement (event_call (Returned (Call_download run_args)))
   \<and> arg_secure (call_client (event_call (Returned (Call_download run_args)))) = Some True"
proof -
  obtain tr where start: "calls (snd (script \<lparr>save = False, verbose = False\<rparr> example_env
        (example_world None))) = calls (example_world None) @ tr"
    and secure: "\<forall>ev \<in> set tr. is_measurement (event_call ev) \<longrightarrow>
            arg_secure (call_client (event_call ev)) = Some True"
    using measurement_client_secure [of False example_env "example_world None"
        "\<lparr>save = False, verbose = False\<rparr>"]
    by blast
  have answers: "Speedtest example_env run_args = None"
    "st_get_best_server example_env = Inr example_server"
    "st_download example_env = Inr 100000000" "st_upload example_env = Inr 20000000"
    by (simp_all add: example_env_def)
  have checked: "Speedtest example_env default_args = None"
    by (simp add: example_env_def)
  have imported: "import_speedtest example_env = None"
    by (simp add: example_env_def)
  have made: "calls (snd (script \<lparr>save = False, verbose = False\<rparr> example_env (example_world None))) =
     [Returned (Call_Speedtest default_args), Returned (Call_Speedtest run_args),
      Returned (Call_get_best_server run_args), Returned (Call_download run_args),
      Returned (Call_upload run_args)]"
    by (simp add: script_def imported main_calls [OF checked] run_speedtest_proj
        try_succeeds(2) [OF answers] example_world_def)
  from start made have "Returned (Call_download run_args) \<in> set tr"
    by (simp add: example_world_def)
  with secure have "is_measurement (event_call (Returned (Call_download run_args))) \<longrightarrow>
      arg_secure (call_client (event_call (Returned (Call_download run_args)))) = Some True"
    by blast
  with made show ?thesis
    by simp
qed

section \<open>Exit codes\<close>

text \<open>
  Claim C6. The process ends with exit code 0 exactly when every stage succeeds: the module
  is imported, both clients are built, \<^verbatim>\<open>get_best_server\<close>, \<^verbatim>\<open>download\<close> and \<^verbatim>\<open>upload\<close>
  return, and, when saving is requested, \<^verbatim>\<open>save_results\<close> returns (the log is absent, or
  reads as a JSON array, or is reported corrupted and started afresh). In every other case
  (an initialisation failure, a speedtest-specific error, any other exception, at any
  stage) the exit code is not 0.
\<close>

theorem exit_code_zero_iff:
  "exit_code (fst (script a env w)) = 0 \<longleftrightarrow>
     import_speedtest env = None
   \<and> Speedtest env default_args = None
   \<and> Speedtest env run_args = None
   \<and> (\<exists>b. st_get_best_server env = Inr b)
   \<and> (\<exists>d. st_download env = Inr d)
   \<and> (\<exists>u. st_upload env = Inr u)
   \<and> (save a \<longrightarrow>
        (case files w ''speedtest_results.json'' of
           None \<Rightarrow> True
         | Some contents \<Rightarrow>
             (case json_load env contents of
                Inl e \<Rightarrow> exn_class e = JSONDecodeError
              | Inr v \<Rightarrow> (case v of JArr _ \<Rightarrow> True | _ \<Rightarrow> False))))"
proof (cases a env w rule: script_calls_cases)
  case (no_import e)
  then show ?thesis by (simp add: exit_code_Uncaught)
next
  case (no_check e)
  then show ?thesis by (simp add: exit_code_handled)
next
  case ran
  note checked = ran(2)
  show ?thesis
  proof (cases "verbose a" env "w\<lparr>calls := calls w @ [Returned (Call_Speedtest default_args)]\<rparr>"
      rule: run_speedtest_cases)
    case (init e)
    then show ?thesis
      by (simp add: ran(3) main_stop_at_run [OF checked] exit_code_handled)
  next
    case (select e)
    then show ?thesis
      by (simp add: ran(3) main_stop_at_run [OF checked] exit_code_handled)
  next
    case (download b e)
    then show ?thesis
      by (simp add: ran(3) main_stop_at_run [OF checked] exit_code_handled)
  next
    case (upload b d e)
    then show ?thesis
      by (simp add: ran(3) main_stop_at_run [OF checked] exit_code_handled)
  next
    case (finished b d u r)
    have kept: "files (snd (display_results r (snd (run_speedtest (verbose a) env
        (w\<lparr>calls := calls w @ [Returned (Call_Speedtest default_args)]\<rparr>))))) = files w"
      by (simp add: display_results_proj run_speedtest_files)
    show ?thesis
    proof (cases "save a")
      case False
      with finished ran(1) checked show ?thesis
        by (simp add: ran(3) main_after_run [OF checked finished(5)] exit_code_def)
    next
      case True
      with finished ran(1) checked show ?thesis
        by (simp add: ran(3) main_after_run [OF checked finished(5)] exit_code_after_save
            save_results_returns_iff kept)
    qed
  qed
qed

theorem exit_code_zero_iff_witness:
  "save \<lparr>save = True, verbose = False\<rparr>
   \<and> files (example_world None) ''speedtest_results.json'' = None
   \<and> exit_code (fst (script \<lparr>save = True, verbose = False\<rparr> example_env (example_world None))) = 0
   \<and> exit_code (fst (script \<lparr>save = True, verbose = False\<rparr>
         (example_env\<lparr>st_download := Inl (Exn SpeedtestException ''HTTP Error 403: Forbidden'')\<rparr>)
         (example_world None))) \<noteq> 0
   \<and> exit_code (fst (script \<lparr>save = True, verbose = False\<rparr> example_env
         (example_world (Some ''{\"server\": \"A\"}'')))) \<noteq> 0"
  using exit_code_zero_iff [of "\<lparr>save = True, verbose = False\<rparr>" example_env "example_world None"]
    exit_code_zero_iff [of "\<lparr>save = True, verbose = False\<rparr>"
      "example_env\<lparr>st_download := Inl (Exn SpeedtestException ''HTTP Error 403: Forbidden'')\<rparr>"
      "example_world None"]
    exit_code_zero_iff [of "\<lparr>save = True, verbose = False\<rparr>" example_env
      "example_world (Some ''{\"server\": \"A\"}'')"]
  by (simp add: example_defs)

text \<open>
  Claim C10. If the speedtest module cannot be imported, or a client cannot be built (in
  \<^verbatim>\<open>check_library\<close> or at the start of \<^verbatim>\<open>run_speedtest\<close>), the process ends with a
  non-zero exit code, no measurement call has been made, and the files, the result log
  among them, are as they were.
\<close>

theorem init_failure_stops_early:
  "import_speedtest env \<noteq> None \<or> Speedtest env default_args \<noteq> None
     \<or> Speedtest env run_args \<noteq> None \<longrightarrow>
     exit_code (fst (script a env w)) \<noteq> 0
   \<and> files (snd (script a env w)) = files w
   \<and> (\<exists>tr. calls (snd (script a env w)) = calls w @ tr
         \<and> (\<forall>ev \<in> set tr. \<not> is_measurement (event_call ev)))"
proof (cases a env w rule: script_calls_cases)
  case (no_import e)
  then show ?thesis by (simp add: exit_code_Uncaught)
next
  case (no_check e)
  then show ?thesis by (simp add: exit_code_handled)
next
  case ran
  note checked = ran(2)
  show ?thesis
  proof (cases "Speedtest env run_args")
    case None
    with ran show ?thesis by simp
  next
    case (Some e)
    have stop: "fst (run_speedtest (verbose a) env
        (w\<lparr>calls := calls w @ [Returned (Call_Speedtest default_args)]\<rparr>)) = Inl (handled e)"
      by (simp add: run_speedtest_proj try_init_fails [OF Some])
    have made: "calls (snd (run_speedtest (verbose a) env
        (w\<lparr>calls := calls w @ [Returned (Call_Speedtest default_args)]\<rparr>))) =
        calls w @ [Returned (Call_Speedtest default_args), Raised (Call_Speedtest run_args) e]"
      by (simp add: run_speedtest_proj try_init_fails [OF Some])
    show ?thesis
      by (simp add: ran(3) main_stop_at_run [OF checked stop] exit_code_handled
          run_speedtest_files made)
  qed
qed

theorem init_failure_stops_early_witness:
  "Speedtest (example_env\<lparr>Speedtest := \<lambda>_. Some (Exn SpeedtestException ''Cannot retrieve speedtest configuration'')\<rparr>)
      default_args \<noteq> None
   \<and> exit_code (fst (script \<lparr>save = True, verbose = False\<rparr>
        (example_env\<lparr>Speedtest := \<lambda>_. Some (Exn SpeedtestException ''Cannot retrieve speedtest configuration'')\<rparr>)
        (example_world (Some ''[{\"server\": \"A\"}]'')))) \<noteq> 0
   \<and> files (snd (script \<lparr>save = True, verbose = False\<rparr>
        (example_env\<lparr>Speedtest := \<lambda>_. Some (Exn SpeedtestException ''Cannot retrieve speedtest configuration'')\<rparr>)
        (example_world (Some ''[{\"server\": \"A\"}]'')))) ''speedtest_results.json''
       = Some ''[{\"server\": \"A\"}]''"
proof -
  have fails: "Speedtest (example_env\<lparr>Speedtest := \<lambda>_. Some (Exn SpeedtestException ''Cannot retrieve speedtest configuration'')\<rparr>)
      default_args \<noteq> None"
    by simp
  have log: "files (example_world (Some ''[{\"server\": \"A\"}]'')) ''speedtest_results.json''
      = Some ''[{\"server\": \"A\"}]''"
    by (simp add: example_world_def)
  from fails log
    init_failure_stops_early [of
      "example_env\<lparr>Speedtest := \<lambda>_. Some (Exn SpeedtestException ''Cannot retrieve speedtest configuration'')\<rparr>"
      "\<lparr>save = True, verbose = False\<rparr>" "example_world (Some ''[{\"server\": \"A\"}]'')"]
  show ?thesis
    by simp
qed

section \<open>Packet loss and jitter\<close>

text \<open>
  Claim C3. The specification asks for a packet-loss ratio of failed over total probe
  attempts. The script reports the literal \<^verbatim>\<open>"0%"\<close> (line 79, marked as a placeholder),
  whatever happened on the network: for two probes of which one failed the ratio is 1/2,
  and the result of a run still says \<^verbatim>\<open>0%\<close>.
\<close>

theorem packet_loss_is_placeholder:
  "spec_loss_ratio
     [\<lparr>server_id = ''1'', round_trip_time_ms = 20, succeeded = True\<rparr>,
      \<lparr>server_id = ''1'', round_trip_time_ms = 0, succeeded = False\<rparr>] = 1 / 2
   \<and> map_sum id packet_loss (fst (run_speedtest False example_env (example_world None)))
       = Inr ''0%''"
proof -
  have answers: "Speedtest example_env run_args = None"
    "st_get_best_server example_env = Inr example_server"
    "st_download example_env = Inr 100000000" "st_upload example_env = Inr 20000000"
    by (simp_all add: example_env_def)
  show ?thesis
    by (simp add: spec_loss_ratio_def run_speedtest_proj try_succeeds(1) [OF answers])
qed

text \<open>
  Claim C4. The specification asks for the mean absolute difference between consecutive
  successful round-trip times. The script reports the literal
  \<^verbatim>\<open>"N/A (approx. 5-20ms variation)"\<close> (line 78, marked as a placeholder): for round trips
  of 20 ms and 30 ms the jitter is 10 ms, and the result of a run holds the placeholder text.
\<close>

theorem jitter_is_placeholder:
  "spec_jitter_ms
     [\<lparr>server_id = ''1'', round_trip_time_ms = 20, succeeded = True\<rparr>,
      \<lparr>server_id = ''1'', round_trip_time_ms = 30, succeeded = True\<rparr>] = 10
   \<and> map_sum id jitter (fst (run_speedtest False example_env (example_world None)))
       = Inr ''N/A (approx. 5-20ms variation)''"
proof -
  have answers: "Speedtest example_env run_args = None"
    "st_get_best_server example_env = Inr example_server"
    "st_download example_env = Inr 100000000" "st_upload example_env = Inr 20000000"
    by (simp_all add: example_env_def)
  show ?thesis
    by (simp add: spec_jitter_ms_def run_speedtest_proj try_succeeds(1) [OF answers])
qed

section \<open>Throughput\<close>

text \<open>
  Claim C2. The speedtest module measures inside \<^verbatim>\<open>download\<close> and \<^verbatim>\<open>upload\<close> and returns
  the rate in bits per second, bytes_transferred * 8 / elapsed_seconds. Given that, the value
  a run reports for either direction is the two-decimal rendering of
  (bytes_transferred * 8) / (elapsed_seconds * 1_000_000), followed by " Mbps". For
  125,000,000 bytes in 10 seconds that value is 100, within 0.01 of 100, and the report is the
  rendering of 100.
\<close>

theorem reported_mbps:
  "Speedtest env run_args = None \<and> st_get_best_server env = Inr b
     \<and> st_download env = Inr (download_bytes * 8 / download_seconds)
     \<and> st_upload env = Inr (upload_bytes * 8 / upload_seconds)
   \<longrightarrow> (\<exists>r. fst (run_speedtest v env w) = Inr r
        \<and> download r =
            format_float env ''.2f'' (download_bytes * 8 / (download_seconds * 1000000))
              @ '' Mbps''
        \<and> upload r =
            format_float env ''.2f'' (upload_bytes * 8 / (upload_seconds * 1000000))
              @ '' Mbps''
        \<and> (download_bytes = 125000000 \<and> download_seconds = 10 \<longrightarrow>
              \<bar>download_bytes * 8 / (download_seconds * 1000000) - 100\<bar> \<le> 1 / 100
            \<and> download r = format_float env ''.2f'' 100 @ '' Mbps''))"
proof
  assume h: "Speedtest env run_args = None \<and> st_get_best_server env = Inr b
     \<and> st_download env = Inr (download_bytes * 8 / download_seconds)
     \<and> st_upload env = Inr (upload_bytes * 8 / upload_seconds)"
  then have built: "Speedtest env run_args = None" and chosen: "st_get_best_server env = Inr b"
    and down: "st_download env = Inr (download_bytes * 8 / download_seconds)"
    and up: "st_upload env = Inr (upload_bytes * 8 / upload_seconds)"
    by simp_all
  have rate: "x * 8 / s / 1000000 = x * 8 / (s * 1000000)" for x s :: real
    by simp
  show "\<exists>r. fst (run_speedtest v env w) = Inr r
        \<and> download r =
            format_float env ''.2f'' (download_bytes * 8 / (download_seconds * 1000000))
              @ '' Mbps''
        \<and> upload r =
            format_float env ''.2f'' (upload_bytes * 8 / (upload_seconds * 1000000))
              @ '' Mbps''
        \<and> (download_bytes = 125000000 \<and> download_seconds = 10 \<longrightarrow>
              \<bar>download_bytes * 8 / (download_seconds * 1000000) - 100\<bar> \<le> 1 / 100
            \<and> download r = format_float env ''.2f'' 100 @ '' Mbps'')"
    by (simp add: run_speedtest_proj try_succeeds(1) [OF built chosen down up] rate)
qed

theorem reported_mbps_witness:
  "Speedtest example_env run_args = None
   \<and> st_get_best_server example_env = Inr example_server
   \<and> st_download example_env = Inr (125000000 * 8 / 10)
   \<and> st_upload example_env = Inr (25000000 * 8 / 10)
   \<and> (\<exists>r. fst (run_speedtest False example_env (example_world None)) = Inr r
        \<and> download r = ''100.00 Mbps'' \<and> upload r = ''20.00 Mbps'')"
proof -
  have answers: "Speedtest example_env run_args = None
     \<and> st_get_best_server example_env = Inr example_server
     \<and> st_download example_env = Inr (125000000 * 8 / 10)
     \<and> st_upload example_env = Inr (25000000 * 8 / 10)"
    by (simp add: example_env_def)
  with reported_mbps [where env = example_env and b = example_server
      and download_bytes = 125000000 and download_seconds = 10
      and upload_bytes = 25000000 and upload_seconds = 10
      and v = False and w = "example_world None"]
  obtain r where "fst (run_speedtest False example_env (example_world None)) = Inr r"
    and "download r = format_float example_env ''.2f'' (125000000 * 8 / (10 * 1000000)) @ '' Mbps''"
    and "upload r = format_float example_env ''.2f'' (25000000 * 8 / (10 * 1000000)) @ '' Mbps''"
    by blast
  then have "\<exists>r. fst (run_speedtest False example_env (example_world None)) = Inr r
        \<and> download r = ''100.00 Mbps'' \<and> upload r = ''20.00 Mbps''"
    by (simp add: example_env_def example_format_float_def)
  with answers show ?thesis
    by blast
qed

end
